theory Spec2Isabelle
  imports Complex_Main "HOL-Library.Word"
begin

section \<open>The credential and history store of app.py\<close>

text \<open>
  Python strings are modelled as \<^typ>\<open>string\<close>, each \<^typ>\<open>char\<close> standing for one code
  point below 256. The JSON document \<^verbatim>\<open>{"users": {...}}\<close> kept in \<^verbatim>\<open>users.json\<close> is a map
  from usernames to user records; a user record is the five-key dictionary that
  \<^verbatim>\<open>create_user\<close> writes, a history item the five-key dictionary that \<^verbatim>\<open>user_upload_ui\<close>
  and \<^verbatim>\<open>user_profile\<close> build. Confidence values are Python floats, idealised as reals.
\<close>

record history_item =
  filename :: string
  filepath :: string
  timestamp :: string
  label :: string
  confidence :: real

record user =
  full_name :: string
  salt :: string
  pwd_hash :: string
  created_at :: string
  history :: "history_item list"

type_synonym users_db = "string \<rightharpoonup> user"

text \<open>The exceptions that the modelled calls raise.\<close>

datatype py_error =
    ValueError | OSError | FileExistsError | IsADirectoryError | FileNotFoundError
  | UnidentifiedImageError | IndexError

text \<open>
  The part of the file system the program touches: the users file (absent until
  \<^verbatim>\<open>ensure_files\<close> has run), the directory paths created by \<^verbatim>\<open>os.makedirs(..., exist_ok=True)\<close>,
  the uploaded images by path, and \<open>os_error\<close>: for each path the error with which the
  operating system refuses to create a directory or a file there for a cause that the rest
  of the state does not show (a parent that is a regular file, a read-only file system, a
  missing permission), if it refuses.

  The users file and the base directory \<^verbatim>\<open>upload\<close> are taken to be usable: reading and
  writing \<^verbatim>\<open>users.json\<close> and creating \<^verbatim>\<open>upload\<close> do not fail.
\<close>

record fs_state =
  users_file :: "users_db option"
  dirs :: "string set"
  files :: "string \<rightharpoonup> 8 word list"
  os_error :: "string \<rightharpoonup> py_error"

definition BASE_UPLOAD_DIR :: string where
  "BASE_UPLOAD_DIR = ''upload''"

text \<open>\<^verbatim>\<open>os.path.join\<close> on two components, POSIX flavour.\<close>

definition path_join :: "string \<Rightarrow> string \<Rightarrow> string" where
  "path_join a b =
     (if b \<noteq> [] \<and> hd b = CHR ''/'' then b
      else if a = [] \<or> last a = CHR ''/'' then a @ b
      else a @ ''/'' @ b)"

subsection \<open>Creating directories and files\<close>

text \<open>
  A path with a NUL character is refused by Python itself with \<^verbatim>\<open>ValueError\<close>; a path
  with a component of more than \<open>NAME_MAX\<close> bytes in the file system encoding (UTF-8: one
  byte below code point 128, two from there on) by the operating system with
  \<^verbatim>\<open>OSError\<close> (file name too long).
\<close>

definition NAME_MAX :: nat where
  "NAME_MAX = 255"

definition fsencode_length :: "string \<Rightarrow> nat" where
  "fsencode_length s = length s + length (filter (\<lambda>c. 128 \<le> (of_char c :: nat)) s)"

fun components :: "string \<Rightarrow> string list" where
  "components [] = [[]]"
| "components (c # cs) =
     (if c = CHR ''/'' then [] # components cs
      else case components cs of
             [] \<Rightarrow> [[c]]
           | x # xs \<Rightarrow> (c # x) # xs)"

definition path_error :: "string \<Rightarrow> py_error option" where
  "path_error path =
     (if CHR 0x00 \<in> set path then Some ValueError
      else if filter (\<lambda>x. NAME_MAX < fsencode_length x) (components path) \<noteq> []
      then Some OSError
      else None)"

text \<open>
  \<^verbatim>\<open>os.makedirs(path, exist_ok=True)\<close>: an existing directory is accepted, an existing
  regular file at the path is not (\<^verbatim>\<open>FileExistsError\<close>).
\<close>

definition makedirs_error :: "string \<Rightarrow> fs_state \<Rightarrow> py_error option" where
  "makedirs_error path fs =
     (case path_error path of
        Some e \<Rightarrow> Some e
      | None \<Rightarrow> if files fs path \<noteq> None then Some FileExistsError else os_error fs path)"

definition makedirs :: "string \<Rightarrow> fs_state \<Rightarrow> py_error + fs_state" where
  "makedirs path fs =
     (case makedirs_error path fs of
        Some e \<Rightarrow> Inl e
      | None \<Rightarrow> Inr (fs\<lparr>dirs := insert path (dirs fs)\<rparr>))"

text \<open>
  \<^verbatim>\<open>with open(path, "wb") as f: f.write(buffer)\<close>: a directory at the path is refused
  (\<^verbatim>\<open>IsADirectoryError\<close>), an existing file is overwritten.
\<close>

definition open_error :: "string \<Rightarrow> fs_state \<Rightarrow> py_error option" where
  "open_error path fs =
     (case path_error path of
        Some e \<Rightarrow> Some e
      | None \<Rightarrow> if path \<in> dirs fs then Some IsADirectoryError else os_error fs path)"

definition open_wb :: "string \<Rightarrow> 8 word list \<Rightarrow> fs_state \<Rightarrow> py_error + fs_state" where
  "open_wb path buffer fs =
     (case open_error path fs of
        Some e \<Rightarrow> Inl e
      | None \<Rightarrow> Inr (fs\<lparr>files := (files fs)(path \<mapsto> buffer)\<rparr>))"

subsection \<open>The users file\<close>

definition ensure_files :: "fs_state \<Rightarrow> fs_state" where
  "ensure_files fs =
     (let fs1 = fs\<lparr>dirs := insert BASE_UPLOAD_DIR (dirs fs)\<rparr>
      in case users_file fs1 of
           None \<Rightarrow> fs1\<lparr>users_file := Some Map.empty\<rparr>
         | Some d \<Rightarrow> fs1)"

definition load_users :: "fs_state \<Rightarrow> users_db \<times> fs_state" where
  "load_users fs =
     (let fs1 = ensure_files fs
      in case users_file fs1 of
           Some d \<Rightarrow> (d, fs1)
         | None \<Rightarrow> (Map.empty, fs1))"

definition save_users :: "users_db \<Rightarrow> fs_state \<Rightarrow> fs_state" where
  "save_users data fs = fs\<lparr>users_file := Some data\<rparr>"

text \<open>
  \<^verbatim>\<open>hashlib.sha256(s.encode("utf-8")).hexdigest()\<close> is the standard library's; it enters as
  the parameter \<open>sha256_hex\<close>, a function from the string hashed to the digest.
\<close>

definition hash_password :: "(string \<Rightarrow> string) \<Rightarrow> string \<Rightarrow> string \<Rightarrow> string" where
  "hash_password sha256_hex password salt_v = sha256_hex (salt_v @ password)"

text \<open>
  \<^verbatim>\<open>secrets.token_hex(nbytes)\<close>: \<open>nbytes\<close> bytes from the operating system's entropy source,
  two lowercase hexadecimal digits each. The source is the stream \<open>urandom\<close> of the bytes
  that this call receives.
\<close>

definition hex_digit :: "nat \<Rightarrow> char" where
  "hex_digit n = ''0123456789abcdef'' ! (n mod 16)"

definition hex_byte :: "8 word \<Rightarrow> string" where
  "hex_byte b = [hex_digit (unat b div 16), hex_digit (unat b mod 16)]"

definition token_bytes :: "nat \<Rightarrow> (nat \<Rightarrow> 8 word) \<Rightarrow> 8 word list" where
  "token_bytes nbytes urandom = map urandom [0..<nbytes]"

definition token_hex :: "nat \<Rightarrow> (nat \<Rightarrow> 8 word) \<Rightarrow> string" where
  "token_hex nbytes urandom = concat (map hex_byte (token_bytes nbytes urandom))"

text \<open>
  \<^verbatim>\<open>create_user\<close>, with what the environment supplies made explicit: the digest function,
  the entropy bytes and the result \<open>now_iso\<close> of \<^verbatim>\<open>datetime.now().isoformat()\<close>. The result
  is the pair returned, or the exception raised, and the file system afterwards. The
  per-user directory is created after the database has been saved, so an exception there
  leaves the new record in the users file.
\<close>

definition create_user ::
  "(string \<Rightarrow> string) \<Rightarrow> (nat \<Rightarrow> 8 word) \<Rightarrow> string \<Rightarrow>
   string \<Rightarrow> string \<Rightarrow> string \<Rightarrow> fs_state \<Rightarrow>
   (py_error + bool \<times> string) \<times> fs_state" where
  "create_user sha256_hex urandom now_iso username password full_name_v fs =
     (case load_users fs of (data, fs1) \<Rightarrow>
        if data username \<noteq> None then (Inr (False, ''Username already exists.''), fs1)
        else
          let salt_v = token_hex 8 urandom;
              pwd_hash_v = hash_password sha256_hex password salt_v;
              data' = data(username \<mapsto>
                \<lparr>full_name = full_name_v, salt = salt_v, pwd_hash = pwd_hash_v,
                 created_at = now_iso, history = []\<rparr>);
              fs2 = save_users data' fs1
          in case makedirs (path_join BASE_UPLOAD_DIR username) fs2 of
               Inl e \<Rightarrow> (Inl e, fs2)
             | Inr fs3 \<Rightarrow> (Inr (True, ''User created.''), fs3))"

definition verify_user ::
  "(string \<Rightarrow> string) \<Rightarrow> string \<Rightarrow> string \<Rightarrow> fs_state \<Rightarrow> (bool \<times> string) \<times> fs_state" where
  "verify_user sha256_hex username password fs =
     (case load_users fs of (data, fs1) \<Rightarrow>
        case data username of
          None \<Rightarrow> ((False, ''Username not found.''), fs1)
        | Some u \<Rightarrow>
            if hash_password sha256_hex password (salt u) = pwd_hash u
            then ((True, ''Login successful.''), fs1)
            else ((False, ''Incorrect password.''), fs1))"

definition add_history_for_user :: "string \<Rightarrow> history_item \<Rightarrow> fs_state \<Rightarrow> fs_state" where
  "add_history_for_user username item fs =
     (case load_users fs of (data, fs1) \<Rightarrow>
        case data username of
          None \<Rightarrow> fs1
        | Some u \<Rightarrow>
            save_users (data(username \<mapsto> u\<lparr>history := take 50 (item # history u)\<rparr>)) fs1)"

text \<open>The database as the next \<^verbatim>\<open>load_users\<close> would read it.\<close>

definition users_of :: "fs_state \<Rightarrow> users_db" where
  "users_of fs = fst (load_users fs)"

section \<open>The forms and the upload page\<close>

text \<open>
  What Streamlit shows after a form is submitted: \<^verbatim>\<open>st.warning\<close>, \<^verbatim>\<open>st.success\<close> or
  \<^verbatim>\<open>st.error\<close> with its message.
\<close>

datatype ui_msg = St_warning string | St_success string | St_error string

text \<open>
  \<^verbatim>\<open>str.strip()\<close> removes leading and trailing whitespace; below code point 256 Python's
  whitespace is 9 to 13, 28 to 32, 133 and 160.
\<close>

definition isspace :: "char \<Rightarrow> bool" where
  "isspace c =
     (let n = (of_char c :: nat)
      in (9 \<le> n \<and> n \<le> 13) \<or> (28 \<le> n \<and> n \<le> 32) \<or> n = 133 \<or> n = 160)"

definition strip :: "string \<Rightarrow> string" where
  "strip s = rev (dropWhile isspace (rev (dropWhile isspace s)))"

text \<open>
  The body of \<^verbatim>\<open>show_signup\<close>; \<open>submitted\<close> is the value of the form's submit button and
  the four strings are the text inputs. The checks read the username as typed;
  \<^verbatim>\<open>create_user\<close> receives it stripped. The result is the message shown, if any, or the
  exception that \<^verbatim>\<open>create_user\<close> raised, and the file system afterwards.
\<close>

definition show_signup ::
  "(string \<Rightarrow> string) \<Rightarrow> (nat \<Rightarrow> 8 word) \<Rightarrow> string \<Rightarrow>
   bool \<Rightarrow> string \<Rightarrow> string \<Rightarrow> string \<Rightarrow> string \<Rightarrow> fs_state \<Rightarrow>
   (py_error + ui_msg option) \<times> fs_state" where
  "show_signup sha256_hex urandom now_iso submitted new_username full_name_v
       new_password confirm_password fs =
     (if submitted then
        if new_username = [] \<or> new_password = [] then
          (Inr (Some (St_warning ''Please enter a username and password.'')), fs)
        else if CHR '' '' \<in> set new_username then
          (Inr (Some (St_warning ''Username cannot contain spaces.'')), fs)
        else if new_password \<noteq> confirm_password then
          (Inr (Some (St_warning ''Passwords do not match.'')), fs)
        else
          case create_user sha256_hex urandom now_iso (strip new_username) new_password
                 (strip full_name_v) fs of
            (Inl e, fs1) \<Rightarrow> (Inl e, fs1)
          | (Inr (ok, msg), fs1) \<Rightarrow>
              if ok
              then (Inr (Some (St_success ''Account created. Please log in below.'')), fs1)
              else (Inr (Some (St_error msg)), fs1)
      else (Inr None, fs))"

subsection \<open>Classification\<close>

definition ECG_NAMES :: "string list" where
  "ECG_NAMES =
     [''Myocardial Infarction ECG'', ''History of MI ECG'',
      ''Abnormal Heartbeat ECG'', ''Normal ECG'']"

text \<open>\<^verbatim>\<open>np.max\<close> and \<^verbatim>\<open>np.argmax\<close> (the first index of the maximum) on a non-empty vector.\<close>

definition np_max :: "real list \<Rightarrow> real" where
  "np_max xs = fold max (tl xs) (hd xs)"

definition np_argmax :: "real list \<Rightarrow> nat" where
  "np_argmax xs = length (takeWhile (\<lambda>x. x \<noteq> np_max xs) xs)"

text \<open>
  The loaded Keras model is \<open>None\<close> when loading failed; then nothing is read. Otherwise
  the image is read from the path, so a missing file raises, and decoded by PIL, so bytes
  that PIL does not identify raise; \<open>pil_identifies\<close> is PIL's verdict on a buffer. The model
  is the function from the bytes of the image to \<^verbatim>\<open>tf.nn.softmax(model.predict(...)[0])\<close>,
  and \<open>times_100\<close> is NumPy's single-precision product \<^verbatim>\<open>np.max(result) * 100\<close>, which
  rounds; loading, predicting and that arithmetic are the libraries'.
\<close>

definition classify_images ::
  "(8 word list \<Rightarrow> bool) \<Rightarrow> (real \<Rightarrow> real) \<Rightarrow> (8 word list \<Rightarrow> real list) option \<Rightarrow>
   fs_state \<Rightarrow> string \<Rightarrow> py_error + (string \<times> real)" where
  "classify_images pil_identifies times_100 model fs image_path =
     (case model of
        None \<Rightarrow> Inr (''ModelNotLoaded'', 0)
      | Some predict \<Rightarrow>
          (case files fs image_path of
             None \<Rightarrow> Inl FileNotFoundError
           | Some input_image \<Rightarrow>
               if \<not> pil_identifies input_image then Inl UnidentifiedImageError
               else
                 let result = predict input_image
                 in if result = [] then Inl ValueError
                    else if np_argmax result < length ECG_NAMES
                    then Inr (ECG_NAMES ! np_argmax result, times_100 (np_max result))
                    else Inl IndexError))"

text \<open>\<^verbatim>\<open>round(x, 2)\<close>: to two decimals, a tie going to the even neighbour.\<close>

definition round_half_even :: "real \<Rightarrow> int" where
  "round_half_even y =
     (let f = \<lfloor>y\<rfloor>; d = y - of_int f
      in if d < 1 / 2 then f
         else if 1 / 2 < d then f + 1
         else if even f then f else f + 1)"

definition py_round2 :: "real \<Rightarrow> real" where
  "py_round2 x = of_int (round_half_even (x * 100)) / 100"

text \<open>
  \<^verbatim>\<open>os.path.splitext(p)[1]\<close>: the suffix from the last dot of the last path component,
  empty when that component has no dot or only leading dots.
\<close>

definition rfind :: "char \<Rightarrow> string \<Rightarrow> int" where
  "rfind c p =
     (case filter (\<lambda>i. p ! i = c) (rev [0..<length p]) of
        [] \<Rightarrow> - 1
      | i # _ \<Rightarrow> int i)"

definition splitext_ext :: "string \<Rightarrow> string" where
  "splitext_ext p =
     (let sepIndex = rfind (CHR ''/'') p; dotIndex = rfind (CHR ''.'') p
      in if sepIndex < dotIndex \<and>
            filter (\<lambda>i. p ! i \<noteq> CHR ''.'') [nat (sepIndex + 1)..<nat dotIndex] \<noteq> []
         then drop (nat dotIndex) p
         else [])"

text \<open>
  The local values \<^verbatim>\<open>user_dir\<close>, \<^verbatim>\<open>safe_name\<close> and \<^verbatim>\<open>file_path\<close> of \<^verbatim>\<open>user_upload_ui\<close>;
  \<open>stamp\<close> is \<^verbatim>\<open>datetime.now().strftime("%Y%m%d_%H%M%S")\<close> and \<open>name\<close> the name of the
  uploaded file.
\<close>

definition user_dir :: "string \<Rightarrow> string" where
  "user_dir username = path_join BASE_UPLOAD_DIR username"

definition safe_name :: "string \<Rightarrow> string \<Rightarrow> string" where
  "safe_name stamp name =
     ''ECG_'' @ stamp @ (if splitext_ext name = [] then ''.png'' else splitext_ext name)"

definition file_path :: "string \<Rightarrow> string \<Rightarrow> string \<Rightarrow> string" where
  "file_path username stamp name = path_join (user_dir username) (safe_name stamp name)"

text \<open>
  \<^verbatim>\<open>user_upload_ui\<close>: \<open>uploaded_file\<close> is the name and the buffer of the uploaded file, if
  any, and \<open>now_iso\<close> the later \<^verbatim>\<open>datetime.now().isoformat()\<close>. The directory is created,
  the buffer written, and the image shown by \<^verbatim>\<open>st.image\<close>, which decodes the buffer with
  PIL and raises on bytes that PIL does not identify; only then is the image classified and
  the item added. The result is the exception raised, if any, and the file system
  afterwards; the text rendered on the page is left out.
\<close>

definition user_upload_ui ::
  "(8 word list \<Rightarrow> bool) \<Rightarrow> (real \<Rightarrow> real) \<Rightarrow> (8 word list \<Rightarrow> real list) option \<Rightarrow>
   (string \<times> 8 word list) option \<Rightarrow> string \<Rightarrow> string \<Rightarrow> string \<Rightarrow> fs_state \<Rightarrow>
   py_error option \<times> fs_state" where
  "user_upload_ui pil_identifies times_100 model uploaded_file stamp now_iso username fs =
     (case uploaded_file of
        None \<Rightarrow> (None, fs)
      | Some (name, buffer) \<Rightarrow>
          (case makedirs (user_dir username) fs of
             Inl e \<Rightarrow> (Some e, fs)
           | Inr fs1 \<Rightarrow>
               (case open_wb (file_path username stamp name) buffer fs1 of
                  Inl e \<Rightarrow> (Some e, fs1)
                | Inr fs2 \<Rightarrow>
                    if \<not> pil_identifies buffer then (Some UnidentifiedImageError, fs2)
                    else
                      (case classify_images pil_identifies times_100 model fs2
                              (file_path username stamp name) of
                         Inl e \<Rightarrow> (Some e, fs2)
                       | Inr (label_v, confidence_v) \<Rightarrow>
                           (None,
                            add_history_for_user username
                              \<lparr>filename = safe_name stamp name,
                               filepath = file_path username stamp name,
                               timestamp = now_iso, label = label_v,
                               confidence = py_round2 confidence_v\<rparr> fs2)))))"

subsection \<open>Sequences of store operations\<close>

text \<open>
  The three operations of the store as requests, each carrying the values the environment
  supplies to it, and their execution one after the other on the file system.
\<close>

datatype store_op =
    Create_user "nat \<Rightarrow> 8 word" string string string string
  | Verify_user string string
  | Add_history string history_item

fun apply_store_op :: "(string \<Rightarrow> string) \<Rightarrow> store_op \<Rightarrow> fs_state \<Rightarrow> fs_state" where
  "apply_store_op sha256_hex (Create_user urandom now_iso username password full_name_v) fs =
     snd (create_user sha256_hex urandom now_iso username password full_name_v fs)"
| "apply_store_op sha256_hex (Verify_user username password) fs =
     snd (verify_user sha256_hex username password fs)"
| "apply_store_op sha256_hex (Add_history username item) fs =
     add_history_for_user username item fs"

fun run_store_ops :: "(string \<Rightarrow> string) \<Rightarrow> store_op list \<Rightarrow> fs_state \<Rightarrow> fs_state" where
  "run_store_ops sha256_hex [] fs = fs"
| "run_store_ops sha256_hex (op # ops) fs =
     run_store_ops sha256_hex ops (apply_store_op sha256_hex op fs)"

subsection \<open>Values for the examples\<close>

text \<open>
  The file system before the first run: no users file, no directory, no image, nothing
  refused by the operating system.
\<close>

abbreviation no_files :: fs_state where
  "no_files \<equiv>
     \<lparr>users_file = None, dirs = {}, files = Map.empty, os_error = Map.empty\<rparr>"

text \<open>
  A file system with one user, \<open>alice\<close> with password \<open>p@ss1\<close>, whose history is \<open>h\<close>;
  list reversal stands for the digest function there. Two history items.
\<close>

abbreviation alice_rec :: "history_item list \<Rightarrow> user" where
  "alice_rec h \<equiv>
     \<lparr>full_name = ''Alice A'', salt = ''0001020304050607'',
      pwd_hash = rev (''0001020304050607'' @ ''p@ss1''),
      created_at = ''2025-01-01T10:00:00'', history = h\<rparr>"

abbreviation alice_fs :: "history_item list \<Rightarrow> fs_state" where
  "alice_fs h \<equiv>
     \<lparr>users_file = Some [''alice'' \<mapsto> alice_rec h],
      dirs = {''upload'', ''upload/alice''}, files = Map.empty, os_error = Map.empty\<rparr>"

abbreviation item_a :: history_item where
  "item_a \<equiv>
     \<lparr>filename = ''ECG_20250101_100500.png'',
      filepath = ''upload/alice/ECG_20250101_100500.png'',
      timestamp = ''2025-01-01T10:05:01'', label = ''Normal ECG'', confidence = 97.25\<rparr>"

abbreviation item_b :: history_item where
  "item_b \<equiv>
     \<lparr>filename = ''ECG_20250101_100700.jpg'',
      filepath = ''upload/alice/ECG_20250101_100700.jpg'',
      timestamp = ''2025-01-01T10:07:01'', label = ''History of MI ECG'', confidence = 61.5\<rparr>"

text \<open>
  A buffer that PIL identifies starts with the signature of an image format; in the
  examples the PNG and the JPEG signature stand for PIL's verdict, and \<open>png_bytes\<close> for an
  uploaded PNG image.
\<close>

definition has_image_signature :: "8 word list \<Rightarrow> bool" where
  "has_image_signature b =
     (take 8 b = [0x89, 0x50, 0x4E, 0x47, 0x0D, 0x0A, 0x1A, 0x0A] \<or>
      take 3 b = [0xFF, 0xD8, 0xFF])"

abbreviation png_bytes :: "8 word list" where
  "png_bytes \<equiv> [0x89, 0x50, 0x4E, 0x47, 0x0D, 0x0A, 0x1A, 0x0A, 0x00, 0x00, 0x00, 0x0D]"

section \<open>Properties of the store\<close>

subsection \<open>What the operations compute\<close>

lemma users_file_ensure_files:
  "users_file (ensure_files fs) =
     Some (case users_file fs of None \<Rightarrow> Map.empty | Some d \<Rightarrow> d)"
  by (simp add: ensure_files_def Let_def split: option.splits)

lemma files_ensure_files: "files (ensure_files fs) = files fs"
  by (simp add: ensure_files_def Let_def split: option.splits)

lemma os_error_ensure_files: "os_error (ensure_files fs) = os_error fs"
  by (simp add: ensure_files_def Let_def split: option.splits)

lemma ensure_files_idem: "ensure_files (ensure_files fs) = ensure_files fs"
  by (simp add: ensure_files_def Let_def split: option.splits)

lemma ensure_files_present:
  "users_file fs = Some d \<Longrightarrow> BASE_UPLOAD_DIR \<in> dirs fs \<Longrightarrow> ensure_files fs = fs"
  by (simp add: ensure_files_def Let_def insert_absorb)

lemma users_of_eq:
  "users_of fs = (case users_file fs of None \<Rightarrow> Map.empty | Some d \<Rightarrow> d)"
  by (simp add: users_of_def load_users_def Let_def users_file_ensure_files
      split: option.splits)

lemma load_users_eq: "load_users fs = (users_of fs, ensure_files fs)"
  by (simp add: users_of_def load_users_def Let_def split: option.splits)

lemma users_of_ensure_files: "users_of (ensure_files fs) = users_of fs"
  by (simp add: users_of_eq users_file_ensure_files split: option.splits)

lemma users_of_save_users: "users_of (save_users d fs) = d"
  by (simp add: users_of_eq save_users_def)

lemma users_of_dirs_update: "users_of (fs\<lparr>dirs := D\<rparr>) = users_of fs"
  by (simp add: users_of_eq)

lemma users_of_files_update: "users_of (fs\<lparr>files := F\<rparr>) = users_of fs"
  by (simp add: users_of_eq)

lemma users_file_present:
  "users_of fs username = Some u \<Longrightarrow> users_file fs = Some (users_of fs)"
  by (auto simp: users_of_eq split: option.splits)

lemma makedirs_error_users_file:
  "makedirs_error p (fs\<lparr>users_file := X\<rparr>) = makedirs_error p fs"
  by (auto simp: makedirs_error_def split: option.splits)

lemma makedirs_error_ensure_files: "makedirs_error p (ensure_files fs) = makedirs_error p fs"
  by (auto simp: makedirs_error_def files_ensure_files os_error_ensure_files
      split: option.splits)

text \<open>
  \<^verbatim>\<open>create_user\<close> on a username that is not a key: the record is saved, and the outcome is
  that of creating the directory.
\<close>

lemma create_user_new:
  "users_of fs username = None \<Longrightarrow>
   create_user H U now username password fn fs =
     (case makedirs_error (path_join BASE_UPLOAD_DIR username) fs of
        None \<Rightarrow>
          (Inr (True, ''User created.''),
           (save_users ((users_of fs)(username \<mapsto>
               \<lparr>full_name = fn, salt = token_hex 8 U,
                pwd_hash = hash_password H password (token_hex 8 U),
                created_at = now, history = []\<rparr>)) (ensure_files fs))
             \<lparr>dirs := insert (path_join BASE_UPLOAD_DIR username)
                 (dirs (ensure_files fs))\<rparr>)
      | Some e \<Rightarrow>
          (Inl e,
           save_users ((users_of fs)(username \<mapsto>
               \<lparr>full_name = fn, salt = token_hex 8 U,
                pwd_hash = hash_password H password (token_hex 8 U),
                created_at = now, history = []\<rparr>)) (ensure_files fs)))"
  by (simp add: create_user_def load_users_eq Let_def makedirs_def save_users_def
      makedirs_error_users_file makedirs_error_ensure_files split: option.splits)

lemma users_of_create_user_new:
  "users_of fs username = None \<Longrightarrow>
   users_of (snd (create_user H U now username password fn fs)) =
     (users_of fs)(username \<mapsto>
        \<lparr>full_name = fn, salt = token_hex 8 U,
         pwd_hash = hash_password H password (token_hex 8 U),
         created_at = now, history = []\<rparr>)"
  by (simp add: create_user_new users_of_dirs_update users_of_save_users
      split: option.splits)

lemma create_user_existing:
  "users_of fs username = Some u \<Longrightarrow>
   create_user H U now username password fn fs =
     (Inr (False, ''Username already exists.''), ensure_files fs)"
  by (simp add: create_user_def load_users_eq)

lemma verify_user_eq:
  "verify_user H username password fs =
     ((case users_of fs username of
         None \<Rightarrow> (False, ''Username not found.'')
       | Some u \<Rightarrow>
           if hash_password H password (salt u) = pwd_hash u
           then (True, ''Login successful.'') else (False, ''Incorrect password.'')),
      ensure_files fs)"
  by (simp add: verify_user_def load_users_eq split: option.splits)

lemma add_history_eq:
  "add_history_for_user username item fs =
     (case users_of fs username of
        None \<Rightarrow> ensure_files fs
      | Some u \<Rightarrow>
          save_users
            ((users_of fs)(username \<mapsto> u\<lparr>history := take 50 (item # history u)\<rparr>))
            (ensure_files fs))"
  by (simp add: add_history_for_user_def load_users_eq split: option.splits)

lemma users_of_add_history:
  "users_of (add_history_for_user username item fs) =
     (case users_of fs username of
        None \<Rightarrow> users_of fs
      | Some u \<Rightarrow> (users_of fs)(username \<mapsto> u\<lparr>history := take 50 (item # history u)\<rparr>))"
  by (simp add: add_history_eq users_of_save_users users_of_ensure_files
      split: option.splits)

lemma take_append_take: "take n (xs @ take n ys) = take n (xs @ ys)"
  by (simp add: min_def)

text \<open>
  Adding the items \<open>es\<close> one after the other leaves the \<open>50\<close> newest, the last one added
  first.
\<close>

lemma history_add_many:
  "users_of fs username = Some u \<Longrightarrow>
   map_option history
     (users_of (run_store_ops H (map (Add_history username) es) fs) username)
     = Some (if es = [] then history u else take 50 (rev es @ history u))"
proof (induction es arbitrary: fs u)
  case Nil
  then show ?case by simp
next
  case (Cons e es)
  let ?u = "u\<lparr>history := take 50 (e # history u)\<rparr>"
  from Cons.prems
  have "users_of (add_history_for_user username e fs) username = Some ?u"
    by (simp add: users_of_add_history)
  from Cons.IH [OF this] show ?case
    by (cases "es = []")
      (simp_all add: take_append_take del: take_append take_Cons_numeral)
qed

subsection \<open>The examples\<close>

lemma users_of_no_files: "users_of no_files = Map.empty"
  by (simp add: users_of_eq)

lemma users_of_Some:
  "users_of \<lparr>users_file = Some d, dirs = D, files = F, os_error = E\<rparr> = d"
  by (simp add: users_of_eq)

lemma components_examples:
  "components ''upload/alice'' = [''upload'', ''alice'']"
  "components ''upload/'' = [''upload'', []]"
  "components ''/etc//x'' = [[], ''etc'', [], ''x'']"
  by simp_all

lemma components_no_sep:
  "CHR ''/'' \<notin> set s \<Longrightarrow> components s = [s]"
  by (induction s) auto

lemma components_upload:
  "CHR ''/'' \<notin> set s \<Longrightarrow> components (''upload/'' @ s) = [''upload'', s]"
  by (simp add: components_no_sep)

lemma path_join_upload:
  "s = [] \<or> hd s \<noteq> CHR ''/'' \<Longrightarrow> path_join BASE_UPLOAD_DIR s = ''upload/'' @ s"
  by (auto simp: path_join_def BASE_UPLOAD_DIR_def)

lemma path_error_upload:
  "CHR ''/'' \<notin> set s \<Longrightarrow>
   path_error (''upload/'' @ s) =
     (if CHR 0x00 \<in> set s then Some ValueError
      else if NAME_MAX < fsencode_length s then Some OSError else None)"
  by (simp add: path_error_def components_no_sep NAME_MAX_def fsencode_length_def)

lemma splitext_ext_example: "splitext_ext ''scan.v2.jpg'' = ''.jpg''"
  by code_simp

lemma splitext_ext_examples:
  "splitext_ext ''.bashrc'' = []" "splitext_ext ''a.d/ecg'' = []"
  "splitext_ext ''ecg.PNG'' = ''.PNG''" "splitext_ext ''ecg.'' = ''.''"
  by code_simp+

lemma strip_example: "strip '' Alice A '' = ''Alice A''"
  by code_simp

subsection \<open>The salt\<close>

lemma token_hex_of_nat: "token_hex 8 of_nat = ''0001020304050607''"
  by (simp add: token_hex_def token_bytes_def hex_byte_def hex_digit_def upt_rec)

lemma token_hex_of_nat_min: "token_hex 8 (of_nat \<circ> min 7) = ''0001020304050607''"
  by (simp add: token_hex_def token_bytes_def hex_byte_def hex_digit_def upt_rec)

lemma length_token_hex: "length (token_hex n U) = 2 * n"
  by (simp add: token_hex_def token_bytes_def hex_byte_def length_concat comp_def
      sum_list_triv)

text \<open>No operation of the store changes the salt of a user that exists.\<close>

lemma salt_apply_store_op:
  assumes "users_of fs username = Some u"
  shows "\<exists>u'. users_of (apply_store_op H op fs) username = Some u' \<and> salt u' = salt u"
proof (cases op)
  case (Create_user U now name password fn)
  show ?thesis
  proof (cases "users_of fs name")
    case None
    with assms have "name \<noteq> username" by auto
    with None assms Create_user show ?thesis
      by (simp add: users_of_create_user_new)
  next
    case (Some v)
    with assms Create_user show ?thesis
      by (simp add: create_user_existing users_of_ensure_files)
  qed
next
  case (Verify_user name password)
  with assms show ?thesis
    by (simp add: verify_user_eq users_of_ensure_files)
next
  case (Add_history name item)
  with assms show ?thesis
    by (cases "users_of fs name") (auto simp: users_of_add_history)
qed

lemma salt_run_store_ops:
  "users_of fs username = Some u \<Longrightarrow>
   \<exists>u'. users_of (run_store_ops H ops fs) username = Some u' \<and> salt u' = salt u"
proof (induction ops arbitrary: fs u)
  case Nil
  then show ?case by simp
next
  case (Cons op ops)
  from salt_apply_store_op [OF Cons.prems, of H op]
  obtain v where v: "users_of (apply_store_op H op fs) username = Some v" "salt v = salt u"
    by blast
  from Cons.IH [OF v(1)] v(2) show ?case by simp
qed

section \<open>The claims\<close>

text \<open>
  C1, as amended. For a username that is not a key of the database and whose directory
  \<^verbatim>\<open>upload/<username>\<close> can be created, \<^verbatim>\<open>create_user\<close> succeeds, and \<^verbatim>\<open>verify_user\<close>
  with the same username and password on the resulting file system succeeds: the stored
  \<open>pwd_hash\<close> is the hash of the password with the stored salt.
\<close>

theorem create_then_verify:
  assumes "users_of fs username = None"
    and "makedirs_error (path_join BASE_UPLOAD_DIR username) fs = None"
  shows "fst (create_user H U now username password fn fs) = Inr (True, ''User created.'') \<and>
     fst (verify_user H username password (snd (create_user H U now username password fn fs)))
       = (True, ''Login successful.'') \<and>
     (\<exists>u. users_of (snd (create_user H U now username password fn fs)) username = Some u \<and>
          pwd_hash u = hash_password H password (salt u))"
  using assms
  by (simp add: create_user_new verify_user_eq users_of_dirs_update users_of_save_users)

theorem create_then_verify_witness:
  "users_of no_files ''alice'' = None \<and>
   makedirs_error (path_join BASE_UPLOAD_DIR ''alice'') no_files = None \<and>
   create_user rev of_nat ''2025-01-01T10:00:00'' ''alice'' ''p@ss1'' ''Alice A'' no_files
     = (Inr (True, ''User created.''), alice_fs []) \<and>
   fst (verify_user rev ''alice'' ''p@ss1'' (alice_fs [])) = (True, ''Login successful.'')"
  using create_then_verify [of no_files "''alice''" rev of_nat "''2025-01-01T10:00:00''"
      "''p@ss1''" "''Alice A''"]
  by (simp add: users_of_no_files create_user_new token_hex_of_nat hash_password_def
      makedirs_error_def path_error_def NAME_MAX_def fsencode_length_def
      save_users_def ensure_files_def BASE_UPLOAD_DIR_def path_join_def insert_commute)

text \<open>
  A username with a NUL character is not a key of the empty database, yet
  \<^verbatim>\<open>create_user\<close> raises \<^verbatim>\<open>ValueError\<close> instead of returning success.
\<close>

theorem create_user_nul_counterexample:
  "users_of no_files [CHR ''a'', CHR 0x00] = None \<and>
   fst (create_user rev of_nat ''2025-01-01T10:00:00'' [CHR ''a'', CHR 0x00] ''pw'' []
          no_files) = Inl ValueError"
  by (simp add: users_of_no_files create_user_new makedirs_error_def path_error_def
      BASE_UPLOAD_DIR_def path_join_def)

text \<open>
  C2. For a user in the database, \<^verbatim>\<open>add_history_for_user\<close> puts the item at index 0 of the
  user's history and keeps the first 50 elements: the new history has at most 50 entries,
  an item added to a full history drops the oldest, after adding \<open>e1\<close> then \<open>e2\<close> the
  history starts with \<open>e2\<close>, \<open>e1\<close>, and after adding the items \<open>es\<close> in turn the history
  is the 50 newest, newest first.
\<close>

theorem add_history_newest_first:
  assumes "users_of fs username = Some u"
  shows "(\<exists>u'. users_of (add_history_for_user username item fs) username = Some u' \<and>
           history u' = take 50 (item # history u) \<and>
           history u' ! 0 = item \<and>
           length (history u') \<le> 50 \<and>
           (50 \<le> length (history u) \<longrightarrow> history u' = item # take 49 (history u))) \<and>
         (\<exists>u'. users_of (add_history_for_user username e2
                  (add_history_for_user username e1 fs)) username = Some u' \<and>
           history u' ! 0 = e2 \<and> history u' ! 1 = e1) \<and>
         (es \<noteq> [] \<longrightarrow>
           map_option history
             (users_of (run_store_ops H (map (Add_history username) es) fs) username)
             = Some (take 50 (rev es @ history u)))"
proof (intro conjI impI)
  show "\<exists>u'. users_of (add_history_for_user username item fs) username = Some u' \<and>
           history u' = take 50 (item # history u) \<and>
           history u' ! 0 = item \<and>
           length (history u') \<le> 50 \<and>
           (50 \<le> length (history u) \<longrightarrow> history u' = item # take 49 (history u))"
    using assms by (simp add: users_of_add_history)
  show "\<exists>u'. users_of (add_history_for_user username e2
                  (add_history_for_user username e1 fs)) username = Some u' \<and>
           history u' ! 0 = e2 \<and> history u' ! 1 = e1"
    using assms by (simp add: users_of_add_history)
next
  assume "es \<noteq> []"
  with history_add_many [OF assms, of H es]
  show "map_option history
             (users_of (run_store_ops H (map (Add_history username) es) fs) username)
             = Some (take 50 (rev es @ history u))"
    by (simp only: if_False)
qed

theorem add_history_newest_first_witness:
  "users_of (alice_fs (replicate 50 item_a)) ''alice'' = Some (alice_rec (replicate 50 item_a)) \<and>
   users_of (add_history_for_user ''alice'' item_b (alice_fs (replicate 50 item_a))) ''alice''
     = Some (alice_rec (item_b # replicate 49 item_a)) \<and>
   map_option history (users_of (add_history_for_user ''alice'' item_b
       (add_history_for_user ''alice'' item_a (alice_fs []))) ''alice'')
     = Some [item_b, item_a]"
  using add_history_newest_first [of "alice_fs (replicate 50 item_a)" "''alice''"
      "alice_rec (replicate 50 item_a)" item_b item_b item_a "[item_a, item_b]" rev]
    add_history_newest_first [of "alice_fs []" "''alice''"
      "alice_rec []" item_a item_b item_a "[item_a, item_b]" rev]
  by (auto simp add: users_of_Some users_of_add_history)

text \<open>
  C3. \<^verbatim>\<open>verify_user\<close> answers "Username not found." when the username is not a key of the
  database, "Incorrect password." when it is a key and the hash of the password with the
  stored salt differs from the stored \<open>pwd_hash\<close>, and succeeds otherwise; the database is
  left as it was.
\<close>

theorem verify_user_outcomes:
  "(users_of fs username = None \<longrightarrow>
      fst (verify_user H username password fs) = (False, ''Username not found.'')) \<and>
   (\<forall>u. users_of fs username = Some u \<and> hash_password H password (salt u) \<noteq> pwd_hash u \<longrightarrow>
      fst (verify_user H username password fs) = (False, ''Incorrect password.'')) \<and>
   (\<forall>u. users_of fs username = Some u \<and> hash_password H password (salt u) = pwd_hash u \<longrightarrow>
      fst (verify_user H username password fs) = (True, ''Login successful.'')) \<and>
   users_of (snd (verify_user H username password fs)) = users_of fs"
  by (simp add: verify_user_eq users_of_ensure_files)

theorem verify_user_outcomes_witness:
  "users_of (alice_fs []) ''bob'' = None \<and>
   fst (verify_user rev ''bob'' ''x'' (alice_fs [])) = (False, ''Username not found.'') \<and>
   users_of (alice_fs []) ''alice'' = Some (alice_rec []) \<and>
   hash_password rev ''wrong'' (salt (alice_rec [])) \<noteq> pwd_hash (alice_rec []) \<and>
   fst (verify_user rev ''alice'' ''wrong'' (alice_fs [])) = (False, ''Incorrect password.'') \<and>
   hash_password rev ''p@ss1'' (salt (alice_rec [])) = pwd_hash (alice_rec []) \<and>
   fst (verify_user rev ''alice'' ''p@ss1'' (alice_fs [])) = (True, ''Login successful.'')"
  using verify_user_outcomes [of "alice_fs []" "''bob''" rev "''x''"]
    verify_user_outcomes [of "alice_fs []" "''alice''" rev "''wrong''"]
    verify_user_outcomes [of "alice_fs []" "''alice''" rev "''p@ss1''"]
  by (simp add: users_of_Some hash_password_def)

text \<open>
  C4. \<^verbatim>\<open>create_user\<close> with a username that is already a key answers
  "Username already exists." and leaves the users file, hence the user's record, and the
  stored images as they were; a second \<^verbatim>\<open>create_user\<close> with the username of a first,
  successful one fails so and leaves the whole file system as the first call left it.
\<close>

theorem create_user_duplicate:
  "(\<forall>u. users_of fs username = Some u \<longrightarrow>
      fst (create_user H U now username password fn fs)
        = Inr (False, ''Username already exists.'') \<and>
      users_file (snd (create_user H U now username password fn fs)) = users_file fs \<and>
      files (snd (create_user H U now username password fn fs)) = files fs \<and>
      users_of (snd (create_user H U now username password fn fs)) username = Some u) \<and>
   (users_of fs username = None \<longrightarrow>
      create_user H U' now' username password' fn'
          (snd (create_user H U now username password fn fs))
        = (Inr (False, ''Username already exists.''),
           snd (create_user H U now username password fn fs)))"
proof (intro conjI allI impI)
  fix u assume u: "users_of fs username = Some u"
  show "fst (create_user H U now username password fn fs)
      = Inr (False, ''Username already exists.'')"
    using u by (simp add: create_user_existing)
  show "users_file (snd (create_user H U now username password fn fs)) = users_file fs"
    using u users_file_present [OF u]
    by (simp add: create_user_existing users_file_ensure_files)
  show "files (snd (create_user H U now username password fn fs)) = files fs"
    using u by (simp add: create_user_existing files_ensure_files)
  show "users_of (snd (create_user H U now username password fn fs)) username = Some u"
    using u by (simp add: create_user_existing users_of_ensure_files)
next
  assume n: "users_of fs username = None"
  let ?fs1 = "snd (create_user H U now username password fn fs)"
  have "users_of ?fs1 username \<noteq> None"
    using n by (simp add: users_of_create_user_new)
  then obtain u where u: "users_of ?fs1 username = Some u" by blast
  have "ensure_files ?fs1 = ?fs1"
    using n
    by (simp add: create_user_new save_users_def ensure_files_def Let_def insert_absorb
        split: option.splits)
  with u show "create_user H U' now' username password' fn' ?fs1
      = (Inr (False, ''Username already exists.''), ?fs1)"
    by (simp add: create_user_existing)
qed

theorem create_user_duplicate_witness:
  "users_of (alice_fs [item_a]) ''alice'' = Some (alice_rec [item_a]) \<and>
   create_user rev (of_nat \<circ> min 3) ''2025-02-02T09:00:00'' ''alice'' ''other'' ''Mallory''
       (alice_fs [item_a])
     = (Inr (False, ''Username already exists.''), alice_fs [item_a]) \<and>
   users_of no_files ''alice'' = None \<and>
   create_user rev (of_nat \<circ> min 3) ''2025-02-02T09:00:00'' ''alice'' ''other'' ''Mallory''
       (snd (create_user rev of_nat ''2025-01-01T10:00:00'' ''alice'' ''p@ss1'' ''Alice A''
          no_files))
     = (Inr (False, ''Username already exists.''), alice_fs [])"
  using create_user_duplicate [of "alice_fs [item_a]" "''alice''" rev "of_nat \<circ> min 3"
      "''2025-02-02T09:00:00''" "''other''" "''Mallory''"]
    create_user_duplicate [of no_files "''alice''" rev "of_nat \<circ> min 3"
      "''2025-02-02T09:00:00''" "''other''" "''Mallory''" of_nat "''2025-01-01T10:00:00''"
      "''p@ss1''" "''Alice A''"]
  by (simp add: users_of_Some users_of_no_files create_user_new create_user_existing
      token_hex_of_nat hash_password_def makedirs_error_def path_error_def NAME_MAX_def
      fsencode_length_def
      save_users_def ensure_files_def BASE_UPLOAD_DIR_def path_join_def insert_commute)

text \<open>
  C5, as amended. On submit, \<^verbatim>\<open>show_signup\<close> shows a validation warning and leaves the
  file system as it is, \<^verbatim>\<open>create_user\<close> not being called, whenever the username is empty
  or contains the space character, the password is empty, or the password differs from its
  confirmation. For a username without leading or trailing whitespace these are the only
  cases: otherwise \<^verbatim>\<open>create_user\<close> is called with that username and the stripped full
  name, and its message or exception is the outcome. Without a submit nothing is done.
\<close>

theorem show_signup_validation:
  "((username = [] \<or> password = [] \<or> CHR '' '' \<in> set username \<or> password \<noteq> confirm)
      \<longrightarrow> (\<exists>m. show_signup H U now True username fn password confirm fs
                 = (Inr (Some (St_warning m)), fs))) \<and>
   (strip username = username \<longrightarrow>
      ((\<exists>m. show_signup H U now True username fn password confirm fs
              = (Inr (Some (St_warning m)), fs))
       \<longleftrightarrow> (username = [] \<or> password = [] \<or> CHR '' '' \<in> set username \<or>
            password \<noteq> confirm))) \<and>
   (strip username = username \<and>
    \<not> (username = [] \<or> password = [] \<or> CHR '' '' \<in> set username \<or>
       password \<noteq> confirm) \<longrightarrow>
      show_signup H U now True username fn password confirm fs =
        (case create_user H U now username password (strip fn) fs of
           (Inl e, fs1) \<Rightarrow> (Inl e, fs1)
         | (Inr (ok, msg), fs1) \<Rightarrow>
             (Inr (Some (if ok then St_success ''Account created. Please log in below.''
                         else St_error msg)), fs1))) \<and>
   show_signup H U now False username fn password confirm fs = (Inr None, fs)"
  by (auto simp: show_signup_def split: prod.splits sum.splits)

theorem show_signup_validation_witness:
  "show_signup rev of_nat ''2025-01-01T10:00:00'' True ''al ice'' [] ''pw'' ''pw'' no_files
     = (Inr (Some (St_warning ''Username cannot contain spaces.'')), no_files) \<and>
   show_signup rev of_nat ''2025-01-01T10:00:00'' True [] [] ''pw'' ''pw'' no_files
     = (Inr (Some (St_warning ''Please enter a username and password.'')), no_files) \<and>
   show_signup rev of_nat ''2025-01-01T10:00:00'' True ''alice'' [] ''pw'' ''px'' no_files
     = (Inr (Some (St_warning ''Passwords do not match.'')), no_files) \<and>
   strip ''alice'' = ''alice'' \<and>
   show_signup rev of_nat ''2025-01-01T10:00:00'' True ''alice'' '' Alice A '' ''p@ss1''
       ''p@ss1'' no_files
     = (Inr (Some (St_success ''Account created. Please log in below.'')), alice_fs []) \<and>
   show_signup rev of_nat ''2025-01-01T10:00:00'' False ''alice'' [] ''pw'' ''pw'' no_files
     = (Inr None, no_files)"
  using show_signup_validation [of "''al ice''" "''pw''" "''pw''" rev of_nat
      "''2025-01-01T10:00:00''" "[]" no_files]
    show_signup_validation [of "''alice''" "''p@ss1''" "''p@ss1''" rev of_nat
      "''2025-01-01T10:00:00''" "'' Alice A ''" no_files]
  by (simp add: show_signup_def strip_def isspace_def users_of_no_files create_user_new
      token_hex_of_nat hash_password_def makedirs_error_def path_error_def NAME_MAX_def
      fsencode_length_def save_users_def ensure_files_def BASE_UPLOAD_DIR_def
      path_join_def insert_commute)

text \<open>
  The space character is the only whitespace that the validation looks for: a username with
  a tab in it passes, and the account is created under that name.
\<close>

theorem signup_tab_counterexample:
  "isspace (CHR 0x09) \<and>
   CHR 0x09 \<in> set [CHR ''a'', CHR ''l'', CHR 0x09, CHR ''i'', CHR ''c'', CHR ''e''] \<and>
   fst (show_signup rev of_nat ''2025-01-01T10:00:00'' True
          [CHR ''a'', CHR ''l'', CHR 0x09, CHR ''i'', CHR ''c'', CHR ''e''] [] ''pw'' ''pw''
          no_files) = Inr (Some (St_success ''Account created. Please log in below.'')) \<and>
   users_of (snd (show_signup rev of_nat ''2025-01-01T10:00:00'' True
          [CHR ''a'', CHR ''l'', CHR 0x09, CHR ''i'', CHR ''c'', CHR ''e''] [] ''pw'' ''pw''
          no_files)) [CHR ''a'', CHR ''l'', CHR 0x09, CHR ''i'', CHR ''c'', CHR ''e'']
     \<noteq> None"
  by (simp add: show_signup_def isspace_def strip_def create_user_new users_of_no_files
      users_of_dirs_update users_of_save_users makedirs_error_def path_error_def
      NAME_MAX_def fsencode_length_def BASE_UPLOAD_DIR_def path_join_def)

text \<open>
  C6, as amended. The salt that \<^verbatim>\<open>create_user\<close> stores for a new username is the
  hexadecimal encoding of 8 bytes of the entropy source, 16 digits, and after any sequence
  of store operations the user's salt is still that token.
\<close>

theorem salt_fixed_token:
  assumes "users_of fs username = None"
  shows "(makedirs_error (path_join BASE_UPLOAD_DIR username) fs = None \<longrightarrow>
        fst (create_user H U now username password fn fs) = Inr (True, ''User created.'')) \<and>
     (\<exists>u. users_of (snd (create_user H U now username password fn fs)) username = Some u \<and>
          salt u = token_hex 8 U \<and> length (salt u) = 16 \<and>
          length (token_bytes 8 U) = 8) \<and>
     (\<forall>ops. \<exists>u'. users_of (run_store_ops H ops
                 (snd (create_user H U now username password fn fs))) username = Some u' \<and>
          salt u' = token_hex 8 U)"
proof -
  let ?fs1 = "snd (create_user H U now username password fn fs)"
  have u: "users_of ?fs1 username = Some \<lparr>full_name = fn, salt = token_hex 8 U,
               pwd_hash = hash_password H password (token_hex 8 U),
               created_at = now, history = []\<rparr>"
    using assms by (simp add: users_of_create_user_new)
  have "\<exists>u'. users_of (run_store_ops H ops ?fs1) username = Some u' \<and>
          salt u' = token_hex 8 U" for ops
    using salt_run_store_ops [OF u, of H ops] by simp
  moreover have "makedirs_error (path_join BASE_UPLOAD_DIR username) fs = None \<longrightarrow>
      fst (create_user H U now username password fn fs) = Inr (True, ''User created.'')"
    using assms by (simp add: create_user_new)
  ultimately show ?thesis
    using u by (simp add: length_token_hex token_bytes_def)
qed

theorem salt_fixed_token_witness:
  "users_of no_files ''alice'' = None \<and>
   fst (create_user rev of_nat ''2025-01-01T10:00:00'' ''alice'' ''p@ss1'' ''Alice A''
          no_files) = Inr (True, ''User created.'') \<and>
   (\<exists>u'. users_of
      (run_store_ops rev
         [Add_history ''alice'' item_a,
          Create_user (of_nat \<circ> min 3) ''2025-02-02T09:00:00'' ''alice'' ''other'' ''Mallory'',
          Verify_user ''alice'' ''p@ss1'', Add_history ''alice'' item_b]
         (snd (create_user rev of_nat ''2025-01-01T10:00:00'' ''alice'' ''p@ss1'' ''Alice A''
            no_files))) ''alice'' = Some u' \<and>
      salt u' = ''0001020304050607'')"
proof -
  have h: "users_of no_files ''alice'' = None"
    by (simp add: users_of_no_files)
  have m: "makedirs_error (path_join BASE_UPLOAD_DIR ''alice'') no_files = None"
    by (simp add: makedirs_error_def path_error_def NAME_MAX_def fsencode_length_def
        BASE_UPLOAD_DIR_def path_join_def)
  note t = salt_fixed_token [OF h, of rev of_nat "''2025-01-01T10:00:00''" "''p@ss1''"
      "''Alice A''"]
  from t have "\<forall>ops. \<exists>u'. users_of (run_store_ops rev ops
          (snd (create_user rev of_nat ''2025-01-01T10:00:00'' ''alice'' ''p@ss1'' ''Alice A''
             no_files))) ''alice'' = Some u' \<and> salt u' = token_hex 8 of_nat"
    by blast
  moreover from t m
  have "fst (create_user rev of_nat ''2025-01-01T10:00:00'' ''alice'' ''p@ss1'' ''Alice A''
          no_files) = Inr (True, ''User created.'')"
    by blast
  ultimately show ?thesis
    using h by (simp only: token_hex_of_nat simp_thms)
qed

text \<open>
  The salt has 16 hexadecimal digits, not the 32 that 16 bytes would give, and does not
  depend on the entropy source beyond its first 8 bytes.
\<close>

theorem salt_entropy_counterexample:
  "map_option salt
     (users_of (snd (create_user rev of_nat ''2025-01-01T10:00:00'' ''alice'' ''p@ss1''
        ''Alice A'' no_files)) ''alice'') = Some ''0001020304050607'' \<and>
   \<not> 2 * 16 \<le> length ''0001020304050607'' \<and>
   (of_nat \<circ> min 7) 8 \<noteq> (of_nat 8 :: 8 word) \<and>
   create_user rev (of_nat \<circ> min 7) ''2025-01-01T10:00:00'' ''alice'' ''p@ss1'' ''Alice A''
     no_files =
   create_user rev of_nat ''2025-01-01T10:00:00'' ''alice'' ''p@ss1'' ''Alice A'' no_files"
  by (simp add: create_user_new users_of_no_files users_of_dirs_update users_of_save_users
      token_hex_of_nat token_hex_of_nat_min split: option.splits)

text \<open>
  C7, as amended. When the model failed to load, \<^verbatim>\<open>classify_images\<close> returns the label
  \<open>ModelNotLoaded\<close> with confidence 0. If moreover the user's directory can be created,
  the upload can be written and PIL identifies the uploaded bytes, so that the image is
  stored and shown, then \<^verbatim>\<open>user_upload_ui\<close> raises nothing, and for a user in the database
  the item with that label, confidence 0 and the current timestamp is put at the front of
  the user's history.
\<close>

theorem upload_without_model:
  "classify_images P T None fs image_path = Inr (''ModelNotLoaded'', 0) \<and>
   (makedirs_error (user_dir username) fs = None \<and>
    open_error (file_path username stamp name) fs = None \<and> P buffer \<longrightarrow>
      fst (user_upload_ui P T None (Some (name, buffer)) stamp now username fs) = None \<and>
      (\<forall>u. users_of fs username = Some u \<longrightarrow>
         (\<exists>u' item.
            users_of (snd (user_upload_ui P T None (Some (name, buffer)) stamp now username fs))
              username = Some u' \<and>
            history u' = take 50 (item # history u) \<and>
            label item = ''ModelNotLoaded'' \<and> confidence item = 0 \<and>
            timestamp item = now \<and> filename item = safe_name stamp name \<and>
            filepath item = file_path username stamp name)))"
proof (intro conjI impI)
  show "classify_images P T None fs image_path = Inr (''ModelNotLoaded'', 0)"
    by (simp add: classify_images_def)
next
  assume a: "makedirs_error (user_dir username) fs = None \<and>
    open_error (file_path username stamp name) fs = None \<and> P buffer"
  let ?fs1 = "fs\<lparr>dirs := insert (user_dir username) (dirs fs)\<rparr>"
  let ?fs2 = "?fs1\<lparr>files := (files ?fs1)(file_path username stamp name \<mapsto> buffer)\<rparr>"
  let ?item = "\<lparr>filename = safe_name stamp name, filepath = file_path username stamp name,
      timestamp = now, label = ''ModelNotLoaded'', confidence = 0\<rparr>"
  have ne: "file_path username stamp name \<noteq> user_dir username"
    by (simp add: file_path_def safe_name_def path_join_def)
  have o: "open_error (file_path username stamp name) ?fs1 = None"
    using a ne by (auto simp: open_error_def split: option.splits if_splits)
  have r: "user_upload_ui P T None (Some (name, buffer)) stamp now username fs
      = (None, add_history_for_user username ?item ?fs2)"
    using a o
    by (simp add: user_upload_ui_def makedirs_def open_wb_def classify_images_def
        py_round2_def round_half_even_def)
  show "fst (user_upload_ui P T None (Some (name, buffer)) stamp now username fs) = None"
    by (simp add: r)
  show "\<forall>u. users_of fs username = Some u \<longrightarrow>
         (\<exists>u' item.
            users_of (snd (user_upload_ui P T None (Some (name, buffer)) stamp now username fs))
              username = Some u' \<and>
            history u' = take 50 (item # history u) \<and>
            label item = ''ModelNotLoaded'' \<and> confidence item = 0 \<and>
            timestamp item = now \<and> filename item = safe_name stamp name \<and>
            filepath item = file_path username stamp name)"
  proof (intro allI impI)
    fix u assume u: "users_of fs username = Some u"
    have "users_of (snd (user_upload_ui P T None (Some (name, buffer)) stamp now username fs))
        username = Some (u\<lparr>history := take 50 (?item # history u)\<rparr>)"
      using u
      by (simp add: r users_of_add_history users_of_files_update users_of_dirs_update)
    then show "\<exists>u' item.
            users_of (snd (user_upload_ui P T None (Some (name, buffer)) stamp now username fs))
              username = Some u' \<and>
            history u' = take 50 (item # history u) \<and>
            label item = ''ModelNotLoaded'' \<and> confidence item = 0 \<and>
            timestamp item = now \<and> filename item = safe_name stamp name \<and>
            filepath item = file_path username stamp name"
      by (intro exI [of _ "u\<lparr>history := take 50 (?item # history u)\<rparr>"] exI [of _ ?item])
        simp
  qed
qed

lemma upload_paths_example:
  "user_dir ''alice'' = ''upload/alice''"
  "safe_name ''20250101_101500'' ''scan.v2.jpg'' = ''ECG_20250101_101500.jpg''"
  "file_path ''alice'' ''20250101_101500'' ''scan.v2.jpg''
     = ''upload/alice/ECG_20250101_101500.jpg''"
  by (simp_all add: user_dir_def safe_name_def file_path_def splitext_ext_example
      path_join_def BASE_UPLOAD_DIR_def)

theorem upload_without_model_witness:
  "makedirs_error (user_dir ''alice'') (alice_fs [item_a]) = None \<and>
   open_error (file_path ''alice'' ''20250101_101500'' ''scan.v2.jpg'') (alice_fs [item_a])
     = None \<and>
   has_image_signature png_bytes \<and>
   users_of (alice_fs [item_a]) ''alice'' = Some (alice_rec [item_a]) \<and>
   user_upload_ui has_image_signature ((*) 100) None (Some (''scan.v2.jpg'', png_bytes))
       ''20250101_101500'' ''2025-01-01T10:15:01'' ''alice'' (alice_fs [item_a])
     = (None,
        \<lparr>users_file = Some [''alice'' \<mapsto> alice_rec
           [\<lparr>filename = ''ECG_20250101_101500.jpg'',
             filepath = ''upload/alice/ECG_20250101_101500.jpg'',
             timestamp = ''2025-01-01T10:15:01'', label = ''ModelNotLoaded'',
             confidence = 0\<rparr>, item_a]],
         dirs = {''upload'', ''upload/alice''},
         files = [''upload/alice/ECG_20250101_101500.jpg'' \<mapsto> png_bytes],
         os_error = Map.empty\<rparr>)"
  using upload_without_model [of has_image_signature "(*) 100" "alice_fs [item_a]"
      "''upload/alice/ECG_20250101_101500.jpg''" "''alice''" "''20250101_101500''"
      "''scan.v2.jpg''" png_bytes "''2025-01-01T10:15:01''"]
  by (simp add: upload_paths_example users_of_Some user_upload_ui_def makedirs_def
      open_wb_def makedirs_error_def open_error_def path_error_def NAME_MAX_def
      fsencode_length_def has_image_signature_def classify_images_def py_round2_def
      round_half_even_def add_history_eq save_users_def ensure_files_def
      BASE_UPLOAD_DIR_def insert_commute Let_def)

text \<open>
  With no model loaded, an upload whose bytes PIL does not identify makes \<^verbatim>\<open>st.image\<close>
  raise after the file has been written: \<^verbatim>\<open>user_upload_ui\<close> fails and no item is added to
  the history.
\<close>

theorem upload_undecodable_counterexample:
  "\<not> has_image_signature [1, 2, 3] \<and>
   user_upload_ui has_image_signature ((*) 100) None (Some (''scan.v2.jpg'', [1, 2, 3]))
       ''20250101_101500'' ''2025-01-01T10:15:01'' ''alice'' (alice_fs [item_a])
     = (Some UnidentifiedImageError,
        \<lparr>users_file = Some [''alice'' \<mapsto> alice_rec [item_a]],
         dirs = {''upload'', ''upload/alice''},
         files = [''upload/alice/ECG_20250101_101500.jpg'' \<mapsto> [1, 2, 3]],
         os_error = Map.empty\<rparr>)"
  by (simp add: upload_paths_example user_upload_ui_def makedirs_def
      open_wb_def makedirs_error_def open_error_def path_error_def NAME_MAX_def
      fsencode_length_def has_image_signature_def insert_commute)

text \<open>
  C8, as amended. For a username that is not a key of the database,
  \<^verbatim>\<open>add_history_for_user\<close> raises nothing and saves nothing: it does what \<^verbatim>\<open>load_users\<close>
  does and no more. The database and the stored images are unchanged; the users file and
  the directory \<^verbatim>\<open>upload\<close> are created when they are absent, and when both exist the
  whole file system is unchanged.
\<close>

theorem add_history_unknown_noop:
  assumes "users_of fs username = None"
  shows "add_history_for_user username item fs = ensure_files fs \<and>
         users_of (add_history_for_user username item fs) = users_of fs \<and>
         files (add_history_for_user username item fs) = files fs \<and>
         (users_file fs \<noteq> None \<and> BASE_UPLOAD_DIR \<in> dirs fs \<longrightarrow>
            add_history_for_user username item fs = fs)"
  using assms
  by (auto simp: add_history_eq users_of_ensure_files files_ensure_files
      ensure_files_present)

theorem add_history_unknown_noop_witness:
  "users_of (alice_fs [item_a]) ''bob'' = None \<and>
   users_file (alice_fs [item_a]) \<noteq> None \<and>
   BASE_UPLOAD_DIR \<in> dirs (alice_fs [item_a]) \<and>
   add_history_for_user ''bob'' item_b (alice_fs [item_a]) = alice_fs [item_a]"
  using add_history_unknown_noop [of "alice_fs [item_a]" "''bob''" item_b]
  by (simp add: users_of_Some BASE_UPLOAD_DIR_def ensure_files_def insert_commute)

text \<open>
  Before the first run there is neither the users file nor the directory: the call for an
  unknown username creates both, so the file system is not left as it was.
\<close>

theorem add_history_creates_files_counterexample:
  "users_of no_files ''bob'' = None \<and>
   add_history_for_user ''bob'' item_b no_files
     = \<lparr>users_file = Some Map.empty, dirs = {''upload''}, files = Map.empty,
        os_error = Map.empty\<rparr> \<and>
   add_history_for_user ''bob'' item_b no_files \<noteq> no_files"
  by (simp add: users_of_no_files add_history_eq ensure_files_def BASE_UPLOAD_DIR_def)

text \<open>
  C9. For a user in the database, \<^verbatim>\<open>add_history_for_user\<close> leaves the record of every
  other user as it is, and of the user's own record the full name, the salt, the password
  hash and the creation time; the stored images are unchanged.
\<close>

theorem add_history_frame:
  assumes "users_of fs username = Some u"
  shows "(\<forall>other. other \<noteq> username \<longrightarrow>
            users_of (add_history_for_user username item fs) other = users_of fs other) \<and>
         (\<exists>u'. users_of (add_history_for_user username item fs) username = Some u' \<and>
            full_name u' = full_name u \<and> salt u' = salt u \<and>
            pwd_hash u' = pwd_hash u \<and> created_at u' = created_at u) \<and>
         files (add_history_for_user username item fs) = files fs"
proof (intro conjI)
  show "\<forall>other. other \<noteq> username \<longrightarrow>
            users_of (add_history_for_user username item fs) other = users_of fs other"
    using assms by (simp add: users_of_add_history)
  show "\<exists>u'. users_of (add_history_for_user username item fs) username = Some u' \<and>
            full_name u' = full_name u \<and> salt u' = salt u \<and>
            pwd_hash u' = pwd_hash u \<and> created_at u' = created_at u"
    using assms by (simp add: users_of_add_history)
  show "files (add_history_for_user username item fs) = files fs"
    using assms by (simp add: add_history_eq save_users_def files_ensure_files)
qed

theorem add_history_frame_witness:
  "users_of \<lparr>users_file = Some [''alice'' \<mapsto> alice_rec [], ''bob'' \<mapsto> alice_rec [item_a]],
       dirs = {''upload''}, files = Map.empty, os_error = Map.empty\<rparr> ''alice'' = Some (alice_rec []) \<and>
   users_of (add_history_for_user ''alice'' item_b
       \<lparr>users_file = Some [''alice'' \<mapsto> alice_rec [], ''bob'' \<mapsto> alice_rec [item_a]],
        dirs = {''upload''}, files = Map.empty, os_error = Map.empty\<rparr>)
     = [''alice'' \<mapsto> alice_rec [item_b], ''bob'' \<mapsto> alice_rec [item_a]]"
  using add_history_frame [of
      "\<lparr>users_file = Some [''alice'' \<mapsto> alice_rec [], ''bob'' \<mapsto> alice_rec [item_a]],
        dirs = {''upload''}, files = Map.empty, os_error = Map.empty\<rparr>" "''alice''" "alice_rec []" item_b]
  by (auto simp add: users_of_Some users_of_add_history fun_upd_twist)

text \<open>
  C10, as amended. \<^verbatim>\<open>create_user\<close> checks nothing but the presence of the key: for
  every username that is not a key and whose directory \<^verbatim>\<open>upload/<username>\<close> can be
  created, the empty string and strings with whitespace included, and every password, the
  empty one included, it succeeds and stores the record.
\<close>

theorem create_user_no_validation:
  assumes "users_of fs username = None"
    and "makedirs_error (path_join BASE_UPLOAD_DIR username) fs = None"
  shows "fst (create_user H U now username password fn fs) = Inr (True, ''User created.'') \<and>
         users_of (snd (create_user H U now username password fn fs)) =
           (users_of fs)(username \<mapsto>
              \<lparr>full_name = fn, salt = token_hex 8 U,
               pwd_hash = hash_password H password (token_hex 8 U),
               created_at = now, history = []\<rparr>)"
  using assms
  by (simp add: create_user_new users_of_dirs_update users_of_save_users)

theorem create_user_no_validation_witness:
  "users_of no_files [] = None \<and>
   makedirs_error (path_join BASE_UPLOAD_DIR []) no_files = None \<and>
   fst (create_user rev of_nat ''2025-01-01T10:00:00'' [] [] [] no_files)
     = Inr (True, ''User created.'') \<and>
   users_of (snd (create_user rev of_nat ''2025-01-01T10:00:00'' [] [] [] no_files))
     = [[] \<mapsto> \<lparr>full_name = [], salt = ''0001020304050607'',
          pwd_hash = rev ''0001020304050607'', created_at = ''2025-01-01T10:00:00'',
          history = []\<rparr>] \<and>
   users_of (alice_fs []) '' a b'' = None \<and>
   makedirs_error (path_join BASE_UPLOAD_DIR '' a b'') (alice_fs []) = None \<and>
   fst (create_user rev of_nat ''2025-01-01T10:00:00'' '' a b'' [] [] (alice_fs []))
     = Inr (True, ''User created.'')"
  using create_user_no_validation [of no_files "[]" rev of_nat "''2025-01-01T10:00:00''"
      "[]" "[]"]
    create_user_no_validation [of "alice_fs []" "'' a b''" rev of_nat
      "''2025-01-01T10:00:00''" "[]" "[]"]
  by (simp add: users_of_Some users_of_no_files token_hex_of_nat hash_password_def
      makedirs_error_def path_error_def NAME_MAX_def fsencode_length_def
      BASE_UPLOAD_DIR_def path_join_def)

text \<open>
  A username of 256 characters is not a key of the empty database, yet \<^verbatim>\<open>create_user\<close>
  raises \<^verbatim>\<open>OSError\<close> (file name too long) instead of returning success.
\<close>

theorem create_user_long_name_counterexample:
  "users_of no_files (replicate 256 (CHR ''a'')) = None \<and>
   fst (create_user rev of_nat ''2025-01-01T10:00:00'' (replicate 256 (CHR ''a'')) [] []
          no_files) = Inl OSError"
proof -
  have p: "path_join BASE_UPLOAD_DIR (replicate 256 (CHR ''a''))
      = ''upload/'' @ replicate 256 (CHR ''a'')"
    by (rule path_join_upload) simp
  have "path_error (''upload/'' @ replicate 256 (CHR ''a'')) = Some OSError"
    by (subst path_error_upload) (simp_all add: NAME_MAX_def fsencode_length_def)
  then show ?thesis
    by (simp add: users_of_no_files create_user_new makedirs_error_def p)
qed

end
